theory Spec2Isabelle
  imports Main
begin

section \<open>The store of src/main.py: carts, checkout and the order lifecycle\<close>

text \<open>
  The program is a Flask application. Every view function reads the request, the
  session (a signed cookie of the client), the clock and the database, and it answers
  with a response, or it raises. The model passes all of that explicitly: a view takes
  the database and the session and returns a record holding the database and the session
  after the request, the messages it flashed, and the response or the exception.
  \<open>flash\<close> puts a message in a queue for the next page that is rendered; the model
  returns the messages of a request instead of keeping the queue, which no view reads.

  Python strings are modelled as \<open>string\<close>, the UTF-8 bytes of the text: two Python
  strings are equal exactly when their UTF-8 encodings are.

  Modelled are the views that read or write the cart or the Order table: \<open>logout\<close>,
  \<open>cart\<close>, \<open>add_to_cart\<close>, \<open>clear_cart\<close>, \<open>checkout\<close> and the five views under
  \<open>/admin\<close>. The catalogue, registration and login are not: a session enters every
  view as an argument, with or without a user id, whatever request produced it.
\<close>

subsection \<open>String constants of the source\<close>

text \<open>The default of \<open>Order.status\<close> (line 28), U+5F85 U+4ED8 U+6B3E: awaiting payment.\<close>

definition status_pending :: string where
  "status_pending =
     [CHR 0xE5, CHR 0xBE, CHR 0x85, CHR 0xE4, CHR 0xBB, CHR 0x98, CHR 0xE6, CHR 0xAC, CHR 0xBE]"

text \<open>The status compared with at line 218, U+5DF2 U+4ED8 U+6B3E: paid.\<close>

definition status_paid :: string where
  "status_paid =
     [CHR 0xE5, CHR 0xB7, CHR 0xB2, CHR 0xE4, CHR 0xBB, CHR 0x98, CHR 0xE6, CHR 0xAC, CHR 0xBE]"

text \<open>The status of lines 201, 205, 218 and 222, U+5DF2 U+5B8C U+6210: completed.\<close>

definition status_completed :: string where
  "status_completed =
     [CHR 0xE5, CHR 0xB7, CHR 0xB2, CHR 0xE5, CHR 0xAE, CHR 0x8C, CHR 0xE6, CHR 0x88, CHR 0x90]"

text \<open>The message flashed at line 135: the cart is empty.\<close>

definition msg_cart_empty :: string where
  "msg_cart_empty =
     [CHR 0xE6, CHR 0x82, CHR 0xA8, CHR 0xE7, CHR 0x9A, CHR 0x84, CHR 0xE8, CHR 0xB3,
      CHR 0xBC, CHR 0xE7, CHR 0x89, CHR 0xA9, CHR 0xE8, CHR 0xBB, CHR 0x8A, CHR 0xE6,
      CHR 0x98, CHR 0xAF, CHR 0xE7, CHR 0xA9, CHR 0xBA, CHR 0xE7, CHR 0x9A, CHR 0x84]"

text \<open>The body returned with status 403 at lines 182, 189, 198 and 215: no permission.\<close>

definition msg_forbidden :: string where
  "msg_forbidden =
     [CHR 0xE6, CHR 0xAC, CHR 0x8A, CHR 0xE9, CHR 0x99, CHR 0x90, CHR 0xE4, CHR 0xB8,
      CHR 0x8D, CHR 0xE8, CHR 0xB6, CHR 0xB3]"

text \<open>The message Flask-Login flashes before it redirects to \<open>login_view\<close>.\<close>

definition login_message :: string where
  "login_message = ''Please log in to access this page.''"

subsection \<open>Naive datetimes\<close>

text \<open>
  \<open>datetime.now()\<close> yields a naive datetime: the seven fields below. The clock is an
  input of the model: every view that reads it takes the value read as an argument.
\<close>

record datetime =
  year :: nat
  month :: nat
  day :: nat
  hour :: nat
  minute :: nat
  second :: nat
  microsecond :: nat

definition digit_char :: "nat \<Rightarrow> char" where
  "digit_char n = ''0123456789'' ! (n mod 10)"

definition two_digits :: "nat \<Rightarrow> string" where
  "two_digits n = [digit_char (n div 10), digit_char n]"

definition four_digits :: "nat \<Rightarrow> string" where
  "four_digits n =
     [digit_char (n div 1000), digit_char (n div 100), digit_char (n div 10), digit_char n]"

text \<open>
  \<open>strftime('%Y%m%d%H%M%S')\<close> of line 141: the year in four digits (the years 1000 to
  9999, which hold every value of the clock), then month, day, hour, minute and second in
  two digits each. The microsecond is not part of the text.
\<close>

definition strftime_YmdHMS :: "datetime \<Rightarrow> string" where
  "strftime_YmdHMS t =
     four_digits (year t) @ two_digits (month t) @ two_digits (day t) @
     two_digits (hour t) @ two_digits (minute t) @ two_digits (second t)"

text \<open>
  The proleptic Gregorian ordinal of a date, as Python's \<open>toordinal\<close> computes it
  (day 1 is 0001-01-01), and the position of a datetime on the time line in
  microseconds. Python and the database order datetimes field by field, which on
  valid datetimes is the order of these positions.
\<close>

definition is_leap :: "nat \<Rightarrow> bool" where
  "is_leap y \<longleftrightarrow> y mod 4 = 0 \<and> (y mod 100 \<noteq> 0 \<or> y mod 400 = 0)"

definition days_before_year :: "nat \<Rightarrow> nat" where
  "days_before_year y =
     (let p = y - 1 in p * 365 + p div 4 - p div 100 + p div 400)"

definition days_before_month :: "nat \<Rightarrow> nat \<Rightarrow> nat" where
  "days_before_month y m =
     (if 1 \<le> m \<and> m \<le> 12
      then [0, 31, 59, 90, 120, 151, 181, 212, 243, 273, 304, 334] ! (m - 1) +
           (if 2 < m \<and> is_leap y then 1 else 0)
      else 0)"

definition toordinal :: "datetime \<Rightarrow> nat" where
  "toordinal t = days_before_year (year t) + days_before_month (year t) (month t) + day t"

definition dt_micro :: "datetime \<Rightarrow> nat" where
  "dt_micro t =
     (((toordinal t * 24 + hour t) * 60 + minute t) * 60 + second t) * 1000000
       + microsecond t"

text \<open>\<open>timedelta(days=30)\<close> in microseconds.\<close>

definition thirty_days :: nat where
  "thirty_days = 30 * 86400 * 1000000"

subsection \<open>The data model\<close>

text \<open>
  \<open>User\<close> (lines 16 to 20) and \<open>Order\<close> (lines 22 to 30). The primary keys \<open>id\<close> are
  \<open>uid\<close> and \<open>oid\<close>; \<open>Order.username\<close> is \<open>order_username\<close>. \<open>completed_at\<close> has no
  default and is NULL until it is written. \<open>status\<close> and \<open>created_at\<close> are nullable
  columns too, but every insert of the program fills them from their defaults and no
  view writes NULL, so they carry plain values here.
\<close>

record user =
  uid :: nat
  username :: string
  password :: string
  is_admin :: bool

record order =
  oid :: nat
  order_id :: string
  order_username :: string
  items_json :: string
  total_price :: int
  status :: string
  created_at :: datetime
  completed_at :: "datetime option"

record db =
  users :: "user list"
  orders :: "order list"

text \<open>
  A cart line as \<open>add_to_cart\<close> builds it (lines 117 to 121): \<open>request.form.get\<close>
  yields None for a missing field, \<open>int\<close> an unbounded integer.
\<close>

record cart_line =
  game :: "string option"
  item :: "string option"
  price :: int

text \<open>
  The session of a client: the user id that Flask-Login keeps in it, and the value
  under the key \<open>cart\<close>, absent until the first \<open>add_to_cart\<close>.
\<close>

record session =
  session_user_id :: "nat option"
  session_cart :: "cart_line list option"

subsection \<open>Responses\<close>

text \<open>
  The methods that the views tell apart: \<open>checkout\<close> asks whether the method is POST
  (line 140), and every other method its route accepts is served as GET is.
\<close>

datatype http_method = GET | POST

datatype exn = IntegrityError | OverflowError | JSONDecodeError | TypeError | ValueError

text \<open>
  The templates with the context each is rendered with. \<open>'j\<close> is the type of the
  values \<open>json.loads\<close> returns; a listed order is paired with its \<open>items_list\<close>.
\<close>

datatype 'j page =
    CartPage "cart_line list" int "(order \<times> 'j) list"
  | CheckoutPage "cart_line list" int
  | OrderConfirmPage string string "cart_line list" int
  | AdminDashboardPage
  | AdminUsersPage "user list" nat
  | AdminUserOrdersPage string "(order \<times> 'j) list"
  | AdminOrdersPage "(order \<times> 'j) list" "(order \<times> 'j) list"

text \<open>
  \<open>Redirect e\<close> is \<open>redirect(url_for(e))\<close>, \<open>RedirectReferrer\<close> is
  \<open>redirect(request.referrer)\<close>, \<open>Body b c\<close> is the pair of a body and a status code.
\<close>

datatype 'j response =
    Redirect string
  | RedirectReferrer
  | Page "'j page"
  | Body string nat

datatype 'j outcome = Returned "'j response" | Raised exn

record 'j result =
  db_after :: db
  session_after :: session
  flashed :: "string list"
  outcome :: "'j outcome"

definition respond :: "db \<Rightarrow> session \<Rightarrow> string list \<Rightarrow> 'j response \<Rightarrow> 'j result" where
  "respond d s fl r = \<lparr>db_after = d, session_after = s, flashed = fl, outcome = Returned r\<rparr>"

definition raise :: "db \<Rightarrow> session \<Rightarrow> exn \<Rightarrow> 'j result" where
  "raise d s e = \<lparr>db_after = d, session_after = s, flashed = [], outcome = Raised e\<rparr>"

subsection \<open>Authentication\<close>

text \<open>\<open>load_user\<close> (lines 38 to 40): the user with that primary key, if there is one.\<close>

definition load_user :: "db \<Rightarrow> nat \<Rightarrow> user option" where
  "load_user d i = find (\<lambda>u. uid u = i) (users d)"

definition current_user :: "db \<Rightarrow> session \<Rightarrow> user option" where
  "current_user d s =
     (case session_user_id s of None \<Rightarrow> None | Some i \<Rightarrow> load_user d i)"

text \<open>
  \<open>@login_required\<close>: without an authenticated user the view does not run; Flask-Login
  flashes its message and redirects to \<open>login_view\<close>, which line 35 sets to \<open>login\<close>.
\<close>

definition login_required :: "db \<Rightarrow> session \<Rightarrow> (user \<Rightarrow> 'j result) \<Rightarrow> 'j result" where
  "login_required d s view =
     (case current_user d s of
        None \<Rightarrow> respond d s [login_message] (Redirect ''login'')
      | Some u \<Rightarrow> view u)"

subsection \<open>The Order table\<close>

text \<open>
  The table is the list of its rows in insertion order. SQLite gives a new row the
  largest \<open>id\<close> of the table plus one, and 1 in an empty table.
\<close>

definition next_oid :: "order list \<Rightarrow> nat" where
  "next_oid os = Suc (fold max (map oid os) 0)"

text \<open>
  \<open>total_price\<close> is an INTEGER column of SQLite (line 11 and line 27), a signed 64-bit
  value: the driver raises OverflowError for any other Python integer.
\<close>

definition int64_ok :: "int \<Rightarrow> bool" where
  "int64_ok n \<longleftrightarrow> - (2 ^ 63) \<le> n \<and> n < 2 ^ 63"

text \<open>
  \<open>db.session.add(new_order); db.session.commit()\<close> (lines 142 to 149). The row takes
  the defaults of the columns that line 142 does not give: \<open>status\<close> and \<open>created_at\<close>,
  the latter from a reading of the clock of its own (the argument \<open>t\<close>).
  \<open>order_id\<close> is declared unique (line 24): the commit of a second row with the same
  \<open>order_id\<close> raises IntegrityError and the table is left as it was.
\<close>

definition add_order :: "db \<Rightarrow> string \<Rightarrow> string \<Rightarrow> string \<Rightarrow> int \<Rightarrow> datetime \<Rightarrow> exn + db" where
  "add_order d code uname blob amount t =
     (if \<not> int64_ok amount then Inl OverflowError
      else if code \<in> set (map order_id (orders d)) then Inl IntegrityError
      else Inr (d\<lparr>orders := orders d @
             [\<lparr>oid = next_oid (orders d), order_id = code, order_username = uname,
               items_json = blob, total_price = amount, status = status_pending,
               created_at = t, completed_at = None\<rparr>]\<rparr>))"

text \<open>The row of the table with the primary key \<open>i\<close>, if there is one.\<close>

definition find_order :: "db \<Rightarrow> nat \<Rightarrow> order option" where
  "find_order d i = find (\<lambda>r. oid r = i) (orders d)"

text \<open>
  \<open>Order.query.get(order_db_id)\<close> (line 216). The key is bound as a parameter of the
  query, a signed 64-bit integer of SQLite: the driver raises OverflowError for a key
  of \<open>2 ^ 63\<close> or more, and the \<open>int\<close> converter of line 212 accepts every sequence of
  digits, so such a key reaches the query. None is the result for a key that no row has.
\<close>

definition get_order :: "db \<Rightarrow> nat \<Rightarrow> exn + order option" where
  "get_order d i =
     (if int64_ok (int i) then Inr (find_order d i) else Inl OverflowError)"

text \<open>The commit of a change \<open>f\<close> made to the row with primary key \<open>i\<close>.\<close>

definition update_order :: "db \<Rightarrow> nat \<Rightarrow> (order \<Rightarrow> order) \<Rightarrow> db" where
  "update_order d i f = d\<lparr>orders := map (\<lambda>r. if oid r = i then f r else r) (orders d)\<rparr>"

subsection \<open>Checkout (lines 130 to 159)\<close>

text \<open>
  \<open>dumps\<close> stands for \<open>json.dumps\<close>. \<open>t_code\<close> is the clock read at line 141,
  \<open>t_insert\<close> the clock read by the default of \<open>created_at\<close> when the row is inserted.
  The cart is popped at line 150, after the commit: a commit that raises leaves it.
\<close>

definition checkout ::
  "(cart_line list \<Rightarrow> string) \<Rightarrow> datetime \<Rightarrow> datetime \<Rightarrow> http_method \<Rightarrow> db \<Rightarrow> session \<Rightarrow> 'j result"
where
  "checkout dumps t_code t_insert meth d s =
     login_required d s (\<lambda>u.
       let cart_list = (case session_cart s of None \<Rightarrow> [] | Some c \<Rightarrow> c) in
       if cart_list = [] then respond d s [msg_cart_empty] (Redirect ''cart'')
       else
         let total_amount = sum_list (map price cart_list) in
         if meth = POST then
           let code = strftime_YmdHMS t_code in
           (case add_order d code (username u) (dumps cart_list) total_amount t_insert of
              Inl e \<Rightarrow> raise d s e
            | Inr d' \<Rightarrow>
                respond d' (s\<lparr>session_cart := None\<rparr>) []
                  (Page (OrderConfirmPage code (username u) cart_list total_amount)))
         else respond d s [] (Page (CheckoutPage cart_list total_amount)))"

subsection \<open>The status update of the administrator (lines 212 to 225)\<close>

definition update_order_status :: "datetime \<Rightarrow> nat \<Rightarrow> string \<Rightarrow> db \<Rightarrow> session \<Rightarrow> 'j result" where
  "update_order_status now order_db_id new_status d s =
     login_required d s (\<lambda>u.
       if \<not> is_admin u then respond d s [] (Body msg_forbidden 403)
       else
         (case get_order d order_db_id of
            Inl e \<Rightarrow> raise d s e
          | Inr None \<Rightarrow> respond d s [] (Redirect ''admin_orders'')
          | Inr (Some ord) \<Rightarrow>
              if new_status = status_completed \<and> status ord \<noteq> status_paid
              then respond d s [] (Redirect ''admin_orders'')
              else
                respond
                  (update_order d order_db_id (\<lambda>r.
                     r\<lparr>status := new_status,
                       completed_at :=
                         (if new_status = status_completed then Some now else completed_at r)\<rparr>))
                  s [] (Redirect ''admin_orders'')))"

subsection \<open>Listing orders\<close>

text \<open>
  \<open>order_by(col.desc())\<close>: the rows by decreasing key. The database does not say in
  which order it returns rows of equal key; the model returns one of the orders it may.
\<close>

definition order_by_desc :: "(order \<Rightarrow> nat) \<Rightarrow> order list \<Rightarrow> order list" where
  "order_by_desc key rs = rev (sort_key key rs)"

text \<open>
  The loops of lines 109 to 110, 191 to 192 and 207 to 208: each row gets its
  \<open>items_list\<close> from \<open>json.loads\<close>, here \<open>loads\<close>, whose result None is a raised
  JSONDecodeError. No loop catches it, so the first row that fails ends the loop.
\<close>

fun decode_all :: "(string \<Rightarrow> 'j option) \<Rightarrow> order list \<Rightarrow> exn + (order \<times> 'j) list" where
  "decode_all loads [] = Inr []"
| "decode_all loads (r # rs) =
     (case loads (items_json r) of
        None \<Rightarrow> Inl JSONDecodeError
      | Some v \<Rightarrow>
          (case decode_all loads rs of
             Inl e \<Rightarrow> Inl e
           | Inr vs \<Rightarrow> Inr ((r, v) # vs)))"

subsection \<open>The views of the cart (lines 96 to 128)\<close>

definition logout :: "db \<Rightarrow> session \<Rightarrow> 'j result" where
  "logout d s =
     login_required d s (\<lambda>u.
       respond d (s\<lparr>session_user_id := None, session_cart := None\<rparr>) [] (Redirect ''index''))"

definition cart :: "(string \<Rightarrow> 'j option) \<Rightarrow> db \<Rightarrow> session \<Rightarrow> 'j result" where
  "cart loads d s =
     login_required d s (\<lambda>u.
       let items = (case session_cart s of None \<Rightarrow> [] | Some c \<Rightarrow> c);
           cart_total = sum_list (map price items);
           past_orders =
             order_by_desc (\<lambda>r. dt_micro (created_at r))
               (filter (\<lambda>r. order_username r = username u) (orders d))
       in (case decode_all loads past_orders of
             Inl e \<Rightarrow> raise d s e
           | Inr listed \<Rightarrow> respond d s [] (Page (CartPage items cart_total listed))))"

text \<open>
  The form of \<open>add_to_cart\<close>. \<open>int(request.form.get('price'))\<close> raises TypeError when
  the field is missing and ValueError when its text is not an integer literal; the
  model takes the field as one of the three cases.
\<close>

datatype price_field = FieldMissing | FieldNotInt | FieldInt int

record cart_form =
  game_name :: "string option"
  item_name :: "string option"
  price_input :: price_field

definition add_to_cart :: "cart_form \<Rightarrow> db \<Rightarrow> session \<Rightarrow> 'j result" where
  "add_to_cart form d s =
     login_required d s (\<lambda>u.
       let cart_list = (case session_cart s of None \<Rightarrow> [] | Some c \<Rightarrow> c) in
       (case price_input form of
          FieldMissing \<Rightarrow> raise d s TypeError
        | FieldNotInt \<Rightarrow> raise d s ValueError
        | FieldInt n \<Rightarrow>
            respond d
              (s\<lparr>session_cart :=
                   Some (cart_list @ [\<lparr>game = game_name form, item = item_name form, price = n\<rparr>])\<rparr>)
              [] RedirectReferrer))"

text \<open>\<open>clear_cart\<close> (lines 125 to 128) carries no \<open>@login_required\<close>.\<close>

definition clear_cart :: "db \<Rightarrow> session \<Rightarrow> 'j result" where
  "clear_cart d s = respond d (s\<lparr>session_cart := None\<rparr>) [] (Redirect ''cart'')"

subsection \<open>The views of the administrator (lines 172 to 210)\<close>

definition admin_dashboard :: "db \<Rightarrow> session \<Rightarrow> 'j result" where
  "admin_dashboard d s =
     login_required d s (\<lambda>u.
       if \<not> is_admin u then respond d s [] (Redirect ''index'')
       else respond d s [] (Page AdminDashboardPage))"

definition admin_users :: "db \<Rightarrow> session \<Rightarrow> 'j result" where
  "admin_users d s =
     login_required d s (\<lambda>u.
       if \<not> is_admin u then respond d s [] (Body msg_forbidden 403)
       else respond d s [] (Page (AdminUsersPage (users d) (length (users d)))))"

definition admin_user_orders :: "(string \<Rightarrow> 'j option) \<Rightarrow> string \<Rightarrow> db \<Rightarrow> session \<Rightarrow> 'j result" where
  "admin_user_orders loads uname d s =
     login_required d s (\<lambda>u.
       if \<not> is_admin u then respond d s [] (Body msg_forbidden 403)
       else
         (case decode_all loads
                 (order_by_desc (\<lambda>r. dt_micro (created_at r))
                    (filter (\<lambda>r. order_username r = uname) (orders d))) of
            Inl e \<Rightarrow> raise d s e
          | Inr listed \<Rightarrow> respond d s [] (Page (AdminUserOrdersPage uname listed))))"

text \<open>
  The two queries of \<open>admin_orders\<close>. A comparison with NULL selects nothing, so a row
  without \<open>completed_at\<close> is not among the completed ones. \<open>completed_at >= now - 30 days\<close>
  is compared on the time line.
\<close>

definition is_pending :: "order \<Rightarrow> bool" where
  "is_pending r \<longleftrightarrow> status r \<noteq> status_completed"

definition recently_completed :: "datetime \<Rightarrow> order \<Rightarrow> bool" where
  "recently_completed now r \<longleftrightarrow>
     status r = status_completed \<and>
     (case completed_at r of
        None \<Rightarrow> False
      | Some c \<Rightarrow> dt_micro now \<le> dt_micro c + thirty_days)"

definition completed_key :: "order \<Rightarrow> nat" where
  "completed_key r = (case completed_at r of None \<Rightarrow> 0 | Some c \<Rightarrow> dt_micro c)"

text \<open>
  \<open>datetime.now() - timedelta(days=30)\<close> raises OverflowError when the date would fall
  before 0001-01-01, after the first query has run.
\<close>

definition admin_orders :: "(string \<Rightarrow> 'j option) \<Rightarrow> datetime \<Rightarrow> db \<Rightarrow> session \<Rightarrow> 'j result" where
  "admin_orders loads now d s =
     login_required d s (\<lambda>u.
       if \<not> is_admin u then respond d s [] (Body msg_forbidden 403)
       else
         let pending = order_by_desc (\<lambda>r. dt_micro (created_at r)) (filter is_pending (orders d)) in
         if toordinal now \<le> 30 then raise d s OverflowError
         else
           let completed = order_by_desc completed_key (filter (recently_completed now) (orders d)) in
           (case decode_all loads (pending @ completed) of
              Inl e \<Rightarrow> raise d s e
            | Inr listed \<Rightarrow>
                respond d s []
                  (Page (AdminOrdersPage (take (length pending) listed)
                           (drop (length pending) listed)))))"

subsection \<open>Sequences of requests that write the Order table\<close>

text \<open>
  \<open>checkout\<close> and \<open>update_order_status\<close> are the only views that write the Order table.
  A request carries what the view reads besides the database: the clock, the arguments
  of the route and the session of the client, any session at all.
\<close>

datatype request =
    Checkout datetime datetime http_method session
  | UpdateOrderStatus datetime nat string session

definition apply_request :: "(cart_line list \<Rightarrow> string) \<Rightarrow> request \<Rightarrow> db \<Rightarrow> db" where
  "apply_request dumps req d =
     (case req of
        Checkout t_code t_insert meth s \<Rightarrow>
          db_after (checkout dumps t_code t_insert meth d s :: unit result)
      | UpdateOrderStatus now i new_status s \<Rightarrow>
          db_after (update_order_status now i new_status d s :: unit result))"

fun run :: "(cart_line list \<Rightarrow> string) \<Rightarrow> request list \<Rightarrow> db \<Rightarrow> db" where
  "run dumps [] d = d"
| "run dumps (req # reqs) d = run dumps reqs (apply_request dumps req d)"

subsection \<open>An encoder and a decoder to run the views with\<close>

text \<open>
  The views take \<open>json.dumps\<close> and \<open>json.loads\<close> as parameters, and every theorem below
  holds for all encoders and decoders. To run a view one of each is needed.
  \<open>dumps_ascii\<close> writes a cart as \<open>json.dumps\<close> does when the labels are printable
  ASCII: an array of objects with the keys in the order of line 117, the separators
  \<open>, \<close> and \<open>: \<close>, None as \<open>null\<close>, the quote and the backslash escaped.
\<close>

fun decimal :: "nat \<Rightarrow> string" where
  "decimal n = (if n < 10 then [digit_char n] else decimal (n div 10) @ [digit_char n])"

declare decimal.simps [simp del]

definition json_int :: "int \<Rightarrow> string" where
  "json_int i = (if i < 0 then CHR ''-'' # decimal (nat (- i)) else decimal (nat i))"

definition json_escape :: "char \<Rightarrow> string" where
  "json_escape c =
     (if c = CHR 0x22 then [CHR 0x5C, CHR 0x22]
      else if c = CHR 0x5C then [CHR 0x5C, CHR 0x5C]
      else [c])"

definition json_text :: "string option \<Rightarrow> string" where
  "json_text v =
     (case v of
        None \<Rightarrow> ''null''
      | Some t \<Rightarrow> [CHR 0x22] @ concat (map json_escape t) @ [CHR 0x22])"

definition json_member :: "string \<Rightarrow> string \<Rightarrow> string" where
  "json_member k v = [CHR 0x22] @ k @ [CHR 0x22] @ '': '' @ v"

definition json_line :: "cart_line \<Rightarrow> string" where
  "json_line l =
     ''{'' @ json_member ''game'' (json_text (game l)) @ '', '' @
     json_member ''item'' (json_text (item l)) @ '', '' @
     json_member ''price'' (json_int (price l)) @ ''}''"

fun join_comma :: "string list \<Rightarrow> string" where
  "join_comma [] = []"
| "join_comma [x] = x"
| "join_comma (x # y # ys) = x @ '', '' @ join_comma (y # ys)"

definition dumps_ascii :: "cart_line list \<Rightarrow> string" where
  "dumps_ascii c = ''['' @ join_comma (map json_line c) @ '']''"

text \<open>
  \<open>loads_array\<close> takes a text for well-formed when it opens an array, and returns the
  text itself for the decoded value. It agrees with \<open>json.loads\<close> on the texts it is run
  on below: the arrays that \<open>dumps_ascii\<close> writes, which both accept, and the text
  \<open>oops\<close>, which both reject.
\<close>

definition loads_array :: "string \<Rightarrow> string option" where
  "loads_array t = (case t of [] \<Rightarrow> None | c # _ \<Rightarrow> if c = CHR ''['' then Some t else None)"

subsection \<open>A shop to run the views in\<close>

definition admin_account :: user where
  "admin_account = \<lparr>uid = 1, username = ''admin'', password = ''pbkdf2:sha256:1'', is_admin = True\<rparr>"

definition alice :: user where
  "alice = \<lparr>uid = 2, username = ''alice'', password = ''pbkdf2:sha256:2'', is_admin = False\<rparr>"

definition shop0 :: db where
  "shop0 = \<lparr>users = [admin_account, alice], orders = []\<rparr>"

definition alice_cart :: "cart_line list" where
  "alice_cart =
     [\<lparr>game = Some ''Genshin'', item = Some ''Crystals'', price = 100\<rparr>,
      \<lparr>game = Some ''Genshin'', item = Some ''Pass'', price = 250\<rparr>]"

definition alice_session :: session where
  "alice_session = \<lparr>session_user_id = Some 2, session_cart = Some alice_cart\<rparr>"

definition admin_session :: session where
  "admin_session = \<lparr>session_user_id = Some 1, session_cart = None\<rparr>"

definition anonymous_session :: session where
  "anonymous_session = \<lparr>session_user_id = None, session_cart = None\<rparr>"

definition stale_session :: session where
  "stale_session = \<lparr>session_user_id = None, session_cart = Some alice_cart\<rparr>"

definition clock :: "nat \<Rightarrow> nat \<Rightarrow> datetime" where
  "clock h m =
     \<lparr>year = 2024, month = 5, day = 17, hour = h, minute = m, second = 0, microsecond = 0\<rparr>"

text \<open>Alice has checked out at 12:00.\<close>

definition shop1 :: db where
  "shop1 = run dumps_ascii [Checkout (clock 12 0) (clock 12 0) POST alice_session] shop0"

text \<open>The administrator marks the order paid at 12:05 and completed at 12:10.\<close>

definition shop2 :: db where
  "shop2 = run dumps_ascii [UpdateOrderStatus (clock 12 5) 1 status_paid admin_session] shop1"

definition shop3 :: db where
  "shop3 = run dumps_ascii [UpdateOrderStatus (clock 12 10) 1 status_completed admin_session] shop2"

text \<open>
  Then the administrator sets the completed order back to awaiting payment at 12:15, to
  paid at 12:20 and to completed again at 12:25.
\<close>

definition shop4 :: db where
  "shop4 = run dumps_ascii [UpdateOrderStatus (clock 12 15) 1 status_pending admin_session] shop3"

definition shop6 :: db where
  "shop6 =
     run dumps_ascii
       [UpdateOrderStatus (clock 12 20) 1 status_paid admin_session,
        UpdateOrderStatus (clock 12 25) 1 status_completed admin_session] shop4"

text \<open>A database whose only order holds a text that is not JSON.\<close>

definition broken_order :: order where
  "broken_order =
     \<lparr>oid = 1, order_id = ''20240517120000'', order_username = ''alice'',
      items_json = ''oops'', total_price = 350, status = status_pending,
      created_at = clock 12 0, completed_at = None\<rparr>"

definition shop_broken :: db where
  "shop_broken = \<lparr>users = [admin_account, alice], orders = [broken_order]\<rparr>"

section \<open>Properties\<close>

subsection \<open>Basic facts\<close>

lemma status_distinct:
  "status_pending \<noteq> status_paid" "status_pending \<noteq> status_completed"
  "status_paid \<noteq> status_completed" "status_completed \<noteq> status_paid"
  "status_paid \<noteq> status_pending" "status_completed \<noteq> status_pending"
  by (simp_all add: status_pending_def status_paid_def status_completed_def)

lemma login_required_Some: "current_user d s = Some u \<Longrightarrow> login_required d s view = view u"
  by (simp add: login_required_def)

lemma login_required_None:
  "current_user d s = None \<Longrightarrow>
   login_required d s view = respond d s [login_message] (Redirect ''login'')"
  by (simp add: login_required_def)

lemma respond_sel [simp]:
  "db_after (respond d s fl r) = d" "session_after (respond d s fl r) = s"
  "flashed (respond d s fl r) = fl" "outcome (respond d s fl r) = Returned r"
  by (simp_all add: respond_def)

lemma raise_sel [simp]:
  "db_after (raise d s e) = d" "session_after (raise d s e) = s"
  "flashed (raise d s e) = []" "outcome (raise d s e) = Raised e"
  by (simp_all add: raise_def)

subsection \<open>The shop, evaluated\<close>

lemma current_user_shop0:
  "current_user shop0 alice_session = Some alice"
  "current_user shop0 admin_session = Some admin_account"
  "current_user shop0 anonymous_session = None"
  "current_user shop0 stale_session = None"
  by (simp_all add: current_user_def load_user_def shop0_def alice_session_def admin_session_def
      anonymous_session_def stale_session_def admin_account_def alice_def)

lemma strftime_clock_12_0: "strftime_YmdHMS (clock 12 0) = ''20240517120000''"
  by (simp add: strftime_YmdHMS_def clock_def four_digits_def two_digits_def digit_char_def)

lemma alice_cart_sum: "sum_list (map price alice_cart) = 350" "alice_cart \<noteq> []"
  by (simp_all add: alice_cart_def)

lemma checkout_shop0:
  "(checkout dumps_ascii (clock 12 0) (clock 12 0) POST shop0 alice_session :: 'j result) =
     respond
       \<lparr>users = [admin_account, alice],
        orders = [\<lparr>oid = 1, order_id = ''20240517120000'', order_username = ''alice'',
                   items_json = dumps_ascii alice_cart, total_price = 350,
                   status = status_pending, created_at = clock 12 0,
                   completed_at = None\<rparr>]\<rparr>
       (alice_session\<lparr>session_cart := None\<rparr>) []
       (Page (OrderConfirmPage ''20240517120000'' ''alice'' alice_cart 350))"
  by (simp add: checkout_def login_required_def current_user_def load_user_def
      alice_session_def alice_cart_sum add_order_def int64_ok_def strftime_clock_12_0
      shop0_def admin_account_def alice_def Let_def next_oid_def)

lemma shop1_eq:
  "shop1 = \<lparr>users = [admin_account, alice],
            orders = [\<lparr>oid = 1, order_id = ''20240517120000'', order_username = ''alice'',
                       items_json = dumps_ascii alice_cart, total_price = 350,
                       status = status_pending, created_at = clock 12 0,
                       completed_at = None\<rparr>]\<rparr>"
  by (simp add: shop1_def apply_request_def checkout_shop0)

lemma current_user_shop1:
  "current_user shop1 alice_session = Some alice"
  "current_user shop1 admin_session = Some admin_account"
  by (simp_all add: current_user_def load_user_def shop1_eq alice_session_def admin_session_def
      admin_account_def alice_def)

lemma int64_ok_nat: "int64_ok (int i) \<longleftrightarrow> i < 2 ^ 63"
  by (simp add: int64_ok_def)

lemma get_order_in_range: "i < 2 ^ 63 \<Longrightarrow> get_order d i = Inr (find_order d i)"
  by (simp add: get_order_def int64_ok_nat)

lemma get_order_Inr: "get_order d i = Inr x \<Longrightarrow> i < 2 ^ 63 \<and> find_order d i = x"
  by (auto simp: get_order_def int64_ok_nat split: if_splits)

lemma find_order_shop1:
  "find_order shop1 1 = Some (hd (orders shop1))" "find_order shop1 7 = None"
  "find_order shop1 9223372036854775808 = None"
  "status (hd (orders shop1)) = status_pending"
  by (simp_all add: find_order_def shop1_eq)

lemma get_order_shop1:
  "get_order shop1 1 = Inr (Some (hd (orders shop1)))" "get_order shop1 7 = Inr None"
  "get_order shop1 9223372036854775808 = Inl OverflowError"
  by (simp_all add: get_order_def int64_ok_def find_order_def shop1_eq)

lemma shop2_eq:
  "shop2 = \<lparr>users = [admin_account, alice],
            orders = [\<lparr>oid = 1, order_id = ''20240517120000'', order_username = ''alice'',
                       items_json = dumps_ascii alice_cart, total_price = 350,
                       status = status_paid, created_at = clock 12 0,
                       completed_at = None\<rparr>]\<rparr>"
  by (simp add: shop2_def apply_request_def update_order_status_def login_required_def
      current_user_def load_user_def shop1_eq admin_session_def admin_account_def
      get_order_def int64_ok_def find_order_def update_order_def status_distinct)

lemma shop3_eq:
  "shop3 = \<lparr>users = [admin_account, alice],
            orders = [\<lparr>oid = 1, order_id = ''20240517120000'', order_username = ''alice'',
                       items_json = dumps_ascii alice_cart, total_price = 350,
                       status = status_completed, created_at = clock 12 0,
                       completed_at = Some (clock 12 10)\<rparr>]\<rparr>"
  by (simp add: shop3_def apply_request_def update_order_status_def login_required_def
      current_user_def load_user_def shop2_eq admin_session_def admin_account_def
      get_order_def int64_ok_def find_order_def update_order_def status_distinct)

lemma shop4_eq:
  "shop4 = \<lparr>users = [admin_account, alice],
            orders = [\<lparr>oid = 1, order_id = ''20240517120000'', order_username = ''alice'',
                       items_json = dumps_ascii alice_cart, total_price = 350,
                       status = status_pending, created_at = clock 12 0,
                       completed_at = Some (clock 12 10)\<rparr>]\<rparr>"
  by (simp add: shop4_def apply_request_def update_order_status_def login_required_def
      current_user_def load_user_def shop3_eq admin_session_def admin_account_def
      get_order_def int64_ok_def find_order_def update_order_def status_distinct)

lemma shop6_eq:
  "shop6 = \<lparr>users = [admin_account, alice],
            orders = [\<lparr>oid = 1, order_id = ''20240517120000'', order_username = ''alice'',
                       items_json = dumps_ascii alice_cart, total_price = 350,
                       status = status_completed, created_at = clock 12 0,
                       completed_at = Some (clock 12 25)\<rparr>]\<rparr>"
  by (simp add: shop6_def apply_request_def update_order_status_def login_required_def
      current_user_def load_user_def shop4_eq admin_session_def admin_account_def
      get_order_def int64_ok_def find_order_def update_order_def status_distinct)

lemma clock_distinct: "clock 12 25 \<noteq> clock 12 10"
  by (simp add: clock_def)

lemma strftime_same_second:
  "strftime_YmdHMS ((clock 12 0)\<lparr>microsecond := 500000\<rparr>) = ''20240517120000''"
  by (simp add: strftime_YmdHMS_def clock_def four_digits_def two_digits_def digit_char_def)

lemma checkout_same_second:
  "(checkout dumps_ascii ((clock 12 0)\<lparr>microsecond := 500000\<rparr>)
      ((clock 12 0)\<lparr>microsecond := 500000\<rparr>) POST shop1 alice_session :: 'j result)
   = raise shop1 alice_session IntegrityError"
  by (simp add: checkout_def login_required_def current_user_def load_user_def
      alice_session_def alice_cart_sum add_order_def int64_ok_def strftime_same_second
      shop1_eq admin_account_def alice_def Let_def)

lemma strftime_clock_12_2: "strftime_YmdHMS (clock 12 2) = ''20240517120200''"
  by (simp add: strftime_YmdHMS_def clock_def four_digits_def two_digits_def digit_char_def)

lemma checkout_next_minute:
  "map order_id (orders (db_after
     (checkout dumps_ascii (clock 12 2) (clock 12 2) POST shop1 alice_session :: unit result)))
   = [''20240517120000'', ''20240517120200'']"
  by (simp add: checkout_def login_required_def current_user_def load_user_def
      alice_session_def alice_cart_sum add_order_def int64_ok_def strftime_clock_12_2
      shop1_eq admin_account_def alice_def Let_def)

lemma toordinal_clock: "toordinal (clock h m) = 739023"
  by (simp add: toordinal_def days_before_year_def days_before_month_def is_leap_def clock_def
      Let_def)

lemma shop_broken_facts:
  "current_user shop_broken alice_session = Some alice"
  "current_user shop_broken admin_session = Some admin_account"
  "broken_order \<in> set (orders shop_broken)"
  "loads_array (items_json broken_order) = None"
  "order_username broken_order = username alice"
  "is_pending broken_order"
  by (simp_all add: current_user_def load_user_def shop_broken_def alice_session_def
      admin_session_def admin_account_def alice_def broken_order_def loads_array_def
      is_pending_def status_distinct)

subsection \<open>What one request does to the Order table\<close>

lemma find_map_oid:
  "(\<And>r. oid (g r) = oid r) \<Longrightarrow>
   find (\<lambda>r. oid r = j) (map g rs) = map_option g (find (\<lambda>r. oid r = j) rs)"
  by (induction rs) simp_all

lemma find_append_Some: "find P xs = Some x \<Longrightarrow> find P (xs @ ys) = Some x"
  by (induction xs) (auto split: if_splits)

lemma find_Some_oid: "find (\<lambda>r. oid r = i) rs = Some r \<Longrightarrow> oid r = i"
  by (induction rs) (auto split: if_splits)

lemma find_order_update_order:
  "(\<And>r. oid (f r) = oid r) \<Longrightarrow>
   find_order (update_order d i f) j =
   map_option (\<lambda>r. if oid r = i then f r else r) (find_order d j)"
  by (simp add: find_order_def update_order_def find_map_oid)

text \<open>A checkout leaves the table alone or appends one row with a code not yet in it.\<close>

lemma orders_checkout:
  "orders (db_after (checkout dumps tc ti meth d s :: 'j result)) = orders d
   \<or> (\<exists>u c. current_user d s = Some u \<and> session_cart s = Some c \<and> c \<noteq> [] \<and> meth = POST
        \<and> strftime_YmdHMS tc \<notin> set (map order_id (orders d))
        \<and> orders (db_after (checkout dumps tc ti meth d s :: 'j result)) = orders d @
          [\<lparr>oid = next_oid (orders d), order_id = strftime_YmdHMS tc,
            order_username = username u, items_json = dumps c,
            total_price = sum_list (map price c), status = status_pending,
            created_at = ti, completed_at = None\<rparr>])"
  by (auto simp: checkout_def login_required_def add_order_def Let_def split: option.splits)

text \<open>
  A status update leaves the table alone or rewrites the status, and with the status
  completed also \<open>completed_at\<close>, of the rows with the given primary key; the latter
  only when it does not ask for completed or the order is paid.
\<close>

lemma orders_update:
  "orders (db_after (update_order_status now i ns d s :: 'j result)) = orders d
   \<or> (\<exists>r. find_order d i = Some r \<and> (ns = status_completed \<longrightarrow> status r = status_paid)
        \<and> orders (db_after (update_order_status now i ns d s :: 'j result)) =
          map (\<lambda>r. if oid r = i
                   then r\<lparr>status := ns,
                          completed_at :=
                            (if ns = status_completed then Some now else completed_at r)\<rparr>
                   else r) (orders d))"
  by (auto simp: update_order_status_def login_required_def update_order_def get_order_def
      split: option.splits)

lemma apply_request_completed:
  assumes "\<forall>r\<in>set (orders d). status r = status_completed \<longrightarrow> completed_at r \<noteq> None"
  shows "\<forall>r\<in>set (orders (apply_request dumps req d)).
           status r = status_completed \<longrightarrow> completed_at r \<noteq> None"
proof (cases req)
  case (Checkout tc ti meth s)
  with assms orders_checkout [of dumps tc ti meth d s, where 'j = unit] show ?thesis
    by (auto simp: apply_request_def status_distinct)
next
  case (UpdateOrderStatus now i ns s)
  with assms orders_update [of now i ns d s, where 'j = unit] show ?thesis
    by (auto simp: apply_request_def)
qed

lemma run_completed:
  "\<forall>r\<in>set (orders d). status r = status_completed \<longrightarrow> completed_at r \<noteq> None \<Longrightarrow>
   \<forall>r\<in>set (orders (run dumps reqs d)). status r = status_completed \<longrightarrow> completed_at r \<noteq> None"
proof (induction reqs arbitrary: d)
  case Nil
  then show ?case by simp
next
  case (Cons req reqs)
  from Cons.prems
  have "\<forall>r\<in>set (orders (apply_request dumps req d)).
          status r = status_completed \<longrightarrow> completed_at r \<noteq> None"
    by (rule apply_request_completed)
  then show ?case
    using Cons.IH by simp
qed

lemma apply_request_stamp:
  assumes "find_order d i = Some r" and "find_order (apply_request dumps req d) i = Some r'"
  shows "(completed_at r' \<noteq> completed_at r \<longrightarrow>
            status r = status_paid \<and> status r' = status_completed)
       \<and> (status r' = status_completed \<and> status r \<noteq> status_completed \<longrightarrow>
            status r = status_paid)"
proof (cases req)
  case (Checkout tc ti meth s)
  with assms orders_checkout [of dumps tc ti meth d s, where 'j = unit] show ?thesis
    by (auto simp: apply_request_def find_order_def find_append_Some)
next
  case (UpdateOrderStatus now j ns s)
  from assms(1) have "oid r = i"
    by (auto simp: find_order_def dest: find_Some_oid)
  with UpdateOrderStatus assms orders_update [of now j ns d s, where 'j = unit] show ?thesis
    by (auto simp: apply_request_def find_order_def find_map_oid split: if_splits)
qed

lemma map_order_id_apply:
  "map order_id (orders (apply_request dumps req d)) = map order_id (orders d)
   \<or> (\<exists>code. code \<notin> set (map order_id (orders d)) \<and>
        map order_id (orders (apply_request dumps req d)) = map order_id (orders d) @ [code])"
proof (cases req)
  case (Checkout tc ti meth s)
  with orders_checkout [of dumps tc ti meth d s, where 'j = unit] show ?thesis
    by (auto simp: apply_request_def)
next
  case (UpdateOrderStatus now i ns s)
  with orders_update [of now i ns d s, where 'j = unit] show ?thesis
    by (auto simp: apply_request_def comp_def intro!: disjI1)
qed

lemma apply_request_distinct:
  "distinct (map order_id (orders d)) \<Longrightarrow>
   distinct (map order_id (orders (apply_request dumps req d)))"
  using map_order_id_apply [of dumps req d] by auto

lemma run_distinct:
  "distinct (map order_id (orders d)) \<Longrightarrow> distinct (map order_id (orders (run dumps reqs d)))"
proof (induction reqs arbitrary: d)
  case Nil
  then show ?case by simp
next
  case (Cons req reqs)
  from Cons.prems have "distinct (map order_id (orders (apply_request dumps req d)))"
    by (rule apply_request_distinct)
  then show ?case
    using Cons.IH by simp
qed

subsection \<open>Decoding the listed orders\<close>

lemma decode_all_raises:
  "\<exists>r\<in>set rs. loads (items_json r) = None \<Longrightarrow> decode_all loads rs = Inl JSONDecodeError"
proof (induction rs)
  case Nil
  then show ?case by simp
next
  case (Cons r rs)
  show ?case
  proof (cases "loads (items_json r)")
    case None
    then show ?thesis by simp
  next
    case (Some v)
    with Cons.prems have "\<exists>r\<in>set rs. loads (items_json r) = None"
      by auto
    then have "decode_all loads rs = Inl JSONDecodeError"
      by (rule Cons.IH)
    with Some show ?thesis by simp
  qed
qed

lemma set_order_by_desc [simp]: "set (order_by_desc key rs) = set rs"
  by (simp add: order_by_desc_def)

subsection \<open>Requests without a logged-in user\<close>

lemma views_require_login:
  assumes "current_user d s = None"
  shows "(cart loads d s :: 'j result) = respond d s [login_message] (Redirect ''login'')"
    and "(add_to_cart form d s :: 'j result) = respond d s [login_message] (Redirect ''login'')"
    and "(checkout dumps t_code t_insert meth d s :: 'j result)
           = respond d s [login_message] (Redirect ''login'')"
    and "(logout d s :: 'j result) = respond d s [login_message] (Redirect ''login'')"
    and "(admin_dashboard d s :: 'j result) = respond d s [login_message] (Redirect ''login'')"
    and "(admin_users d s :: 'j result) = respond d s [login_message] (Redirect ''login'')"
    and "(admin_user_orders loads uname d s :: 'j result)
           = respond d s [login_message] (Redirect ''login'')"
    and "(admin_orders loads now d s :: 'j result)
           = respond d s [login_message] (Redirect ''login'')"
    and "(update_order_status now i new_status d s :: 'j result)
           = respond d s [login_message] (Redirect ''login'')"
  using assms
  by (simp_all add: cart_def add_to_cart_def checkout_def logout_def admin_dashboard_def
      admin_users_def admin_user_orders_def admin_orders_def update_order_status_def
      login_required_None)

subsection \<open>Checkout\<close>

text \<open>
  Claim C1. For every non-empty cart, a checkout that succeeds (the POST of an
  authenticated user whose commit does not raise) appends exactly one order to the
  table: its \<open>total_price\<close> is the sum of the prices of the cart lines, its
  \<open>items_json\<close> is the serialised cart as it was at the checkout, its status is the
  initial one, awaiting payment, and no \<open>completed_at\<close> is set; nothing else in the
  database changes, and the session has no cart afterwards.
\<close>

theorem checkout_creates_order:
  assumes "current_user d s = Some u" and "session_cart s = Some c" and "c \<noteq> []"
    and "outcome (checkout dumps t_code t_insert POST d s :: 'j result) = Returned r"
  shows "\<exists>row. orders (db_after (checkout dumps t_code t_insert POST d s :: 'j result)) = orders d @ [row]
       \<and> total_price row = sum_list (map price c)
       \<and> items_json row = dumps c
       \<and> status row = status_pending
       \<and> completed_at row = None
       \<and> order_username row = username u
       \<and> users (db_after (checkout dumps t_code t_insert POST d s :: 'j result)) = users d
       \<and> session_cart (session_after (checkout dumps t_code t_insert POST d s :: 'j result)) = None
       \<and> session_user_id (session_after (checkout dumps t_code t_insert POST d s :: 'j result))
           = session_user_id s"
  using assms
  by (auto simp: checkout_def login_required_Some add_order_def Let_def split: if_splits)

theorem checkout_creates_order_witness:
  "current_user shop0 alice_session = Some alice
   \<and> session_cart alice_session = Some alice_cart
   \<and> alice_cart \<noteq> []
   \<and> outcome (checkout dumps_ascii (clock 12 0) (clock 12 0) POST shop0 alice_session
        :: unit result)
       = Returned (Page (OrderConfirmPage ''20240517120000'' ''alice'' alice_cart 350))
   \<and> map total_price
        (orders (db_after (checkout dumps_ascii (clock 12 0) (clock 12 0) POST shop0
           alice_session :: unit result))) = [350]
   \<and> map status
        (orders (db_after (checkout dumps_ascii (clock 12 0) (clock 12 0) POST shop0
           alice_session :: unit result))) = [status_pending]
   \<and> session_cart
        (session_after (checkout dumps_ascii (clock 12 0) (clock 12 0) POST shop0
           alice_session :: unit result)) = None"
proof -
  have h1: "current_user shop0 alice_session = Some alice"
    by (rule current_user_shop0)
  have h2: "session_cart alice_session = Some alice_cart"
    by (simp add: alice_session_def)
  have h3: "alice_cart \<noteq> []"
    by (rule alice_cart_sum)
  have h4: "outcome (checkout dumps_ascii (clock 12 0) (clock 12 0) POST shop0 alice_session
              :: unit result)
            = Returned (Page (OrderConfirmPage ''20240517120000'' ''alice'' alice_cart 350))"
    by (simp add: checkout_shop0)
  have "orders shop0 = []"
    by (simp add: shop0_def)
  with checkout_creates_order [where 'j = unit, OF h1 h2 h3 h4] h1 h2 h3 h4 show ?thesis
    by (auto simp: alice_cart_sum)
qed

text \<open>
  Claim C5. A checkout with an empty cart (no cart in the session, or an empty list)
  fails: whatever the method, it creates no order, leaves the database and the
  session, hence the cart, as they were, and answers an authenticated user with the
  flashed message of line 135 and a redirect to the cart view (a client that is not
  logged in is redirected to the login view by \<open>@login_required\<close>).
\<close>

theorem checkout_empty_cart:
  assumes "session_cart s = None \<or> session_cart s = Some []"
  shows "db_after (checkout dumps t_code t_insert meth d s :: 'j result) = d
       \<and> session_after (checkout dumps t_code t_insert meth d s :: 'j result) = s
       \<and> (case current_user d s of
            None \<Rightarrow>
              outcome (checkout dumps t_code t_insert meth d s :: 'j result) = Returned (Redirect ''login'')
          | Some u \<Rightarrow>
              outcome (checkout dumps t_code t_insert meth d s :: 'j result) = Returned (Redirect ''cart'')
              \<and> flashed (checkout dumps t_code t_insert meth d s :: 'j result) = [msg_cart_empty])"
  using assms by (auto simp: checkout_def login_required_def split: option.splits)

theorem checkout_empty_cart_witness:
  "(session_cart admin_session = None \<or> session_cart admin_session = Some [])
   \<and> db_after (checkout dumps_ascii (clock 12 0) (clock 12 0) POST shop1 admin_session
        :: unit result) = shop1
   \<and> session_after (checkout dumps_ascii (clock 12 0) (clock 12 0) POST shop1 admin_session
        :: unit result) = admin_session
   \<and> outcome (checkout dumps_ascii (clock 12 0) (clock 12 0) POST shop1 admin_session
        :: unit result) = Returned (Redirect ''cart'')"
proof -
  have h: "session_cart admin_session = None \<or> session_cart admin_session = Some []"
    by (simp add: admin_session_def)
  from checkout_empty_cart [where 'j = unit, OF h, of dumps_ascii "clock 12 0" "clock 12 0" POST shop1] h
  show ?thesis
    by (simp add: current_user_shop1)
qed

subsection \<open>The status update\<close>

text \<open>
  Claim C2. When an administrator asks for the status completed on an order whose
  current status is not exactly paid, the request is rejected without any change: the
  database after the request is the database before it (so the status and
  \<open>completed_at\<close> of the order are what they were), nothing is raised, and the
  response is the redirect to the order list. The statuses awaiting payment and
  completed both differ from paid, so a direct request from awaiting payment is
  rejected, and a second request on a completed order writes no second \<open>completed_at\<close>.
\<close>

theorem completed_guard_rejects:
  assumes "current_user d s = Some u" and "is_admin u" and "get_order d i = Inr (Some r)"
    and "status r \<noteq> status_paid"
  shows "db_after (update_order_status now i status_completed d s :: 'j result) = d
       \<and> session_after (update_order_status now i status_completed d s :: 'j result) = s
       \<and> outcome (update_order_status now i status_completed d s :: 'j result)
           = Returned (Redirect ''admin_orders'')
       \<and> get_order (db_after (update_order_status now i status_completed d s :: 'j result)) i
           = Inr (Some r)
       \<and> status_pending \<noteq> status_paid
       \<and> status_completed \<noteq> status_paid"
  using assms by (simp add: update_order_status_def login_required_Some status_distinct)

theorem completed_guard_rejects_witness:
  "current_user shop1 admin_session = Some admin_account
   \<and> is_admin admin_account
   \<and> get_order shop1 1 = Inr (Some (hd (orders shop1)))
   \<and> status (hd (orders shop1)) \<noteq> status_paid
   \<and> db_after (update_order_status (clock 12 5) 1 status_completed shop1 admin_session
        :: unit result) = shop1
   \<and> outcome (update_order_status (clock 12 5) 1 status_completed shop1 admin_session
        :: unit result) = Returned (Redirect ''admin_orders'')"
proof -
  have h1: "current_user shop1 admin_session = Some admin_account"
    by (rule current_user_shop1)
  have h2: "is_admin admin_account"
    by (simp add: admin_account_def)
  have h3: "get_order shop1 1 = Inr (Some (hd (orders shop1)))"
    by (rule get_order_shop1)
  have h4: "status (hd (orders shop1)) \<noteq> status_paid"
    by (simp add: find_order_shop1 status_distinct)
  from completed_guard_rejects [where 'j = unit, OF h1 h2 h3 h4, of "clock 12 5"] h1 h2 h3 h4
  show ?thesis by simp
qed




text \<open>
  Claim C6, as amended. The status of an order does not only move forward: a status
  update of an administrator on an order of the table writes the requested status
  whatever the current one is, with the one exception of line 218, a request for
  completed on an order that is not paid, which changes nothing. So a status can go
  back (from paid to awaiting payment, from completed to paid); what the code
  enforces is that the status completed is entered from the status paid only.
\<close>

theorem update_sets_requested_status:
  assumes "current_user d s = Some u" and "is_admin u" and "get_order d i = Inr (Some r)"
  shows "get_order (db_after (update_order_status now i new_status d s :: 'j result)) i =
           Inr (Some (if new_status = status_completed \<and> status r \<noteq> status_paid then r
                 else r\<lparr>status := new_status,
                        completed_at :=
                          (if new_status = status_completed then Some now
                           else completed_at r)\<rparr>))
       \<and> (\<forall>req r'. find_order (apply_request dumps req d) i = Some r'
                   \<and> status r' = status_completed \<and> status r \<noteq> status_completed
                 \<longrightarrow> status r = status_paid)"
proof -
  from assms(3) have range: "i < 2 ^ 63" and found: "find_order d i = Some r"
    by (auto dest: get_order_Inr)
  from found have "oid r = i"
    by (auto simp: find_order_def dest: find_Some_oid)
  with assms found
  have "find_order (db_after (update_order_status now i new_status d s :: 'j result)) i =
           Some (if new_status = status_completed \<and> status r \<noteq> status_paid then r
                 else r\<lparr>status := new_status,
                        completed_at :=
                          (if new_status = status_completed then Some now
                           else completed_at r)\<rparr>)"
    by (simp add: update_order_status_def login_required_Some find_order_update_order)
  with range
  have "get_order (db_after (update_order_status now i new_status d s :: 'j result)) i =
           Inr (Some (if new_status = status_completed \<and> status r \<noteq> status_paid then r
                 else r\<lparr>status := new_status,
                        completed_at :=
                          (if new_status = status_completed then Some now
                           else completed_at r)\<rparr>))"
    by (simp add: get_order_in_range)
  moreover
  have "\<forall>req r'. find_order (apply_request dumps req d) i = Some r'
                   \<and> status r' = status_completed \<and> status r \<noteq> status_completed
                 \<longrightarrow> status r = status_paid"
    using apply_request_stamp [OF found] by blast
  ultimately show ?thesis by blast
qed

theorem update_sets_requested_status_witness:
  "current_user shop2 admin_session = Some admin_account
   \<and> is_admin admin_account
   \<and> get_order shop2 1 = Inr (Some (hd (orders shop2)))
   \<and> status (hd (orders shop2)) = status_paid
   \<and> get_order
        (db_after (update_order_status (clock 12 6) 1 status_pending shop2 admin_session
           :: unit result)) 1
       = Inr (Some ((hd (orders shop2))\<lparr>status := status_pending\<rparr>))"
proof -
  have h1: "current_user shop2 admin_session = Some admin_account"
    by (simp add: current_user_def load_user_def shop2_eq admin_session_def admin_account_def)
  have h2: "is_admin admin_account"
    by (simp add: admin_account_def)
  have h3: "get_order shop2 1 = Inr (Some (hd (orders shop2)))"
    by (simp add: get_order_def int64_ok_def find_order_def shop2_eq)
  have h4: "status (hd (orders shop2)) = status_paid"
    by (simp add: shop2_eq)
  from update_sets_requested_status [where 'j = unit, OF h1 h2 h3, of "clock 12 6" status_pending]
    h1 h2 h3 h4
  show ?thesis by (simp add: status_distinct)
qed

theorem status_reverts_counterexample:
  "map status (orders shop2) = [status_paid]
   \<and> map status
        (orders (run dumps_ascii
           [UpdateOrderStatus (clock 12 6) 1 status_pending admin_session] shop2))
       = [status_pending]
   \<and> map status (orders shop3) = [status_completed]
   \<and> map status (orders shop4) = [status_pending]
   \<and> shop4 = run dumps_ascii
               [UpdateOrderStatus (clock 12 15) 1 status_pending admin_session] shop3"
  by (simp add: shop2_eq shop3_eq shop4_eq)
     (simp add: shop4_def apply_request_def update_order_status_def login_required_def
       current_user_def load_user_def shop2_eq admin_session_def admin_account_def
       get_order_def int64_ok_def find_order_def update_order_def status_distinct)

text \<open>
  Claim C3, as amended. In every database reached from an empty Order table by
  checkouts and status updates, an order whose status is completed has a
  \<open>completed_at\<close>. The converse does not hold, and \<open>completed_at\<close> can be written more
  than once: a request changes the \<open>completed_at\<close> of an order exactly by setting the
  status completed on an order that is paid, and since a completed order can be set
  back to another status, its \<open>completed_at\<close> stays behind and is overwritten when the
  order is completed again.
\<close>

theorem completed_has_completed_at:
  assumes "orders d0 = []"
  shows "(\<forall>r\<in>set (orders (run dumps reqs d0)).
            status r = status_completed \<longrightarrow> completed_at r \<noteq> None)
       \<and> (\<forall>i r r'. find_order (run dumps reqs d0) i = Some r
                   \<and> find_order (apply_request dumps req (run dumps reqs d0)) i = Some r'
                   \<and> completed_at r' \<noteq> completed_at r
                 \<longrightarrow> status r = status_paid \<and> status r' = status_completed)"
proof -
  from assms
  have "\<forall>r\<in>set (orders d0). status r = status_completed \<longrightarrow> completed_at r \<noteq> None"
    by simp
  then have "\<forall>r\<in>set (orders (run dumps reqs d0)).
               status r = status_completed \<longrightarrow> completed_at r \<noteq> None"
    by (rule run_completed)
  moreover
  have "\<forall>i r r'. find_order (run dumps reqs d0) i = Some r
                   \<and> find_order (apply_request dumps req (run dumps reqs d0)) i = Some r'
                   \<and> completed_at r' \<noteq> completed_at r
                 \<longrightarrow> status r = status_paid \<and> status r' = status_completed"
    using apply_request_stamp by blast
  ultimately show ?thesis by blast
qed

theorem completed_has_completed_at_witness:
  "orders shop0 = []
   \<and> run dumps_ascii
       [Checkout (clock 12 0) (clock 12 0) POST alice_session,
        UpdateOrderStatus (clock 12 5) 1 status_paid admin_session,
        UpdateOrderStatus (clock 12 10) 1 status_completed admin_session] shop0 = shop3
   \<and> map status (orders shop3) = [status_completed]
   \<and> map completed_at (orders shop3) = [Some (clock 12 10)]
   \<and> completed_at (hd (orders shop3)) \<noteq> None"
proof -
  have h: "orders shop0 = []"
    by (simp add: shop0_def)
  have e: "run dumps_ascii
       [Checkout (clock 12 0) (clock 12 0) POST alice_session,
        UpdateOrderStatus (clock 12 5) 1 status_paid admin_session,
        UpdateOrderStatus (clock 12 10) 1 status_completed admin_session] shop0 = shop3"
    by (simp add: shop3_def shop2_def shop1_def)
  from completed_has_completed_at [OF h, of dumps_ascii
       "[Checkout (clock 12 0) (clock 12 0) POST alice_session,
         UpdateOrderStatus (clock 12 5) 1 status_paid admin_session,
         UpdateOrderStatus (clock 12 10) 1 status_completed admin_session]"]
  have "\<forall>r\<in>set (orders shop3). status r = status_completed \<longrightarrow> completed_at r \<noteq> None"
    unfolding e by blast
  moreover have "hd (orders shop3) \<in> set (orders shop3)"
    and "status (hd (orders shop3)) = status_completed"
    by (simp_all add: shop3_eq)
  ultimately have "completed_at (hd (orders shop3)) \<noteq> None"
    by blast
  with h e show ?thesis
    by (simp add: shop3_eq)
qed

theorem completed_at_outlives_status_counterexample:
  "shop4 = run dumps_ascii
       [Checkout (clock 12 0) (clock 12 0) POST alice_session,
        UpdateOrderStatus (clock 12 5) 1 status_paid admin_session,
        UpdateOrderStatus (clock 12 10) 1 status_completed admin_session,
        UpdateOrderStatus (clock 12 15) 1 status_pending admin_session] shop0
   \<and> map status (orders shop4) = [status_pending]
   \<and> map completed_at (orders shop4) = [Some (clock 12 10)]
   \<and> status_pending \<noteq> status_completed
   \<and> shop6 = run dumps_ascii
       [UpdateOrderStatus (clock 12 20) 1 status_paid admin_session,
        UpdateOrderStatus (clock 12 25) 1 status_completed admin_session] shop4
   \<and> map completed_at (orders shop6) = [Some (clock 12 25)]
   \<and> clock 12 25 \<noteq> clock 12 10"
proof -
  have "shop4 = run dumps_ascii
       [Checkout (clock 12 0) (clock 12 0) POST alice_session,
        UpdateOrderStatus (clock 12 5) 1 status_paid admin_session,
        UpdateOrderStatus (clock 12 10) 1 status_completed admin_session,
        UpdateOrderStatus (clock 12 15) 1 status_pending admin_session] shop0"
    by (simp add: shop4_def shop3_def shop2_def shop1_def)
  moreover have "map status (orders shop4) = [status_pending]"
    and "map completed_at (orders shop4) = [Some (clock 12 10)]"
    by (simp_all add: shop4_eq)
  moreover have "map completed_at (orders shop6) = [Some (clock 12 25)]"
    by (simp add: shop6_eq)
  moreover have "shop6 = run dumps_ascii
       [UpdateOrderStatus (clock 12 20) 1 status_paid admin_session,
        UpdateOrderStatus (clock 12 25) 1 status_completed admin_session] shop4"
    by (rule shop6_def)
  ultimately show ?thesis
    using status_distinct clock_distinct by blast
qed

subsection \<open>Order codes\<close>

text \<open>
  The table never holds two orders with the same \<open>order_id\<close>, and a request never
  changes the \<open>order_id\<close> of an order that is in the table: the column is declared
  unique, and no view writes it after the insert.
\<close>

lemma order_codes_distinct_and_fixed:
  assumes "orders d0 = []"
  shows "distinct (map order_id (orders (run dumps reqs d0)))
       \<and> (\<exists>new. map order_id (orders (apply_request dumps req (run dumps reqs d0)))
                  = map order_id (orders (run dumps reqs d0)) @ new)"
proof -
  from assms have "distinct (map order_id (orders d0))"
    by simp
  then have "distinct (map order_id (orders (run dumps reqs d0)))"
    by (rule run_distinct)
  moreover
  have "\<exists>new. map order_id (orders (apply_request dumps req (run dumps reqs d0)))
                  = map order_id (orders (run dumps reqs d0)) @ new"
    using map_order_id_apply [of dumps req "run dumps reqs d0"] by auto
  ultimately show ?thesis by blast
qed

text \<open>
  The code of line 141 does not depend on the microsecond, so two readings of the
  clock within one second give the same code; and a checkout whose code is already in
  the table raises IntegrityError at the commit, creates no order and keeps the cart.
  Hence, after a checkout that succeeded, every further checkout within the same
  second fails.
\<close>

lemma strftime_ignores_microsecond:
  "strftime_YmdHMS (t\<lparr>microsecond := us\<rparr>) = strftime_YmdHMS t"
  by (simp add: strftime_YmdHMS_def)

lemma checkout_code_collision:
  assumes "current_user d s = Some u" and "session_cart s = Some c" and "c \<noteq> []"
    and "int64_ok (sum_list (map price c))"
    and "strftime_YmdHMS t_code \<in> set (map order_id (orders d))"
  shows "(checkout dumps t_code t_insert POST d s :: 'j result) = raise d s IntegrityError"
  using assms by (simp add: checkout_def login_required_Some add_order_def Let_def)

lemma checkout_success_code:
  assumes "outcome (checkout dumps t_code t_insert POST d s :: 'j result) = Returned (Page p)"
  shows "strftime_YmdHMS t_code
           \<in> set (map order_id (orders (db_after (checkout dumps t_code t_insert POST d s
                :: 'j result))))"
  using assms
  by (auto simp: checkout_def login_required_def add_order_def Let_def
      split: option.splits if_splits)

lemma second_checkout_in_same_second_raises:
  assumes "outcome (checkout dumps t t_insert POST d s :: 'j result) = Returned (Page p)"
    and "current_user (db_after (checkout dumps t t_insert POST d s :: 'j result)) s' = Some u"
    and "session_cart s' = Some c" and "c \<noteq> []" and "int64_ok (sum_list (map price c))"
  shows "(checkout dumps (t\<lparr>microsecond := us\<rparr>) t_insert' POST
            (db_after (checkout dumps t t_insert POST d s :: 'j result)) s' :: 'j result)
         = raise (db_after (checkout dumps t t_insert POST d s :: 'j result)) s' IntegrityError"
  using checkout_success_code [OF assms(1)] assms(2-5)
  by (intro checkout_code_collision) (simp_all add: strftime_ignores_microsecond)

text \<open>
  Claim C4. Two checkouts within the same second do not get two distinct codes: both
  get the code of that second. At 12:00:00 the first checkout creates the order
  \<open>20240517120000\<close>; the second, half a second later, computes the same code, its
  commit raises IntegrityError, and the sequence of two checkouts ends with one order
  instead of two orders with distinct codes. A second checkout at 12:02 gets a code of
  its own.
\<close>

theorem same_second_checkouts_collide:
  "clock 12 0 \<noteq> (clock 12 0)\<lparr>microsecond := 500000\<rparr>
   \<and> strftime_YmdHMS (clock 12 0) = ''20240517120000''
   \<and> strftime_YmdHMS ((clock 12 0)\<lparr>microsecond := 500000\<rparr>) = ''20240517120000''
   \<and> apply_request dumps_ascii (Checkout (clock 12 0) (clock 12 0) POST alice_session) shop0
       = shop1
   \<and> map order_id (orders shop1) = [''20240517120000'']
   \<and> outcome (checkout dumps_ascii ((clock 12 0)\<lparr>microsecond := 500000\<rparr>)
        ((clock 12 0)\<lparr>microsecond := 500000\<rparr>) POST shop1 alice_session :: unit result)
       = Raised IntegrityError
   \<and> db_after (checkout dumps_ascii ((clock 12 0)\<lparr>microsecond := 500000\<rparr>)
        ((clock 12 0)\<lparr>microsecond := 500000\<rparr>) POST shop1 alice_session :: unit result)
       = shop1
   \<and> map order_id
        (orders (run dumps_ascii
           [Checkout (clock 12 0) (clock 12 0) POST alice_session,
            Checkout ((clock 12 0)\<lparr>microsecond := 500000\<rparr>)
              ((clock 12 0)\<lparr>microsecond := 500000\<rparr>) POST alice_session] shop0))
       = [''20240517120000'']
   \<and> map order_id
        (orders (run dumps_ascii
           [Checkout (clock 12 0) (clock 12 0) POST alice_session,
            Checkout (clock 12 2) (clock 12 2) POST alice_session] shop0))
       = [''20240517120000'', ''20240517120200'']"
proof -
  have e1: "apply_request dumps_ascii
              (Checkout (clock 12 0) (clock 12 0) POST alice_session) shop0 = shop1"
    by (simp add: shop1_def)
  have e2: "apply_request dumps_ascii
              (Checkout ((clock 12 0)\<lparr>microsecond := 500000\<rparr>)
                 ((clock 12 0)\<lparr>microsecond := 500000\<rparr>) POST alice_session) shop1 = shop1"
    by (simp add: apply_request_def checkout_same_second)
  have e3: "map order_id (orders (apply_request dumps_ascii
              (Checkout (clock 12 2) (clock 12 2) POST alice_session) shop1))
            = [''20240517120000'', ''20240517120200'']"
    by (simp add: apply_request_def checkout_next_minute)
  have "clock 12 0 \<noteq> (clock 12 0)\<lparr>microsecond := 500000\<rparr>"
    by (simp add: clock_def)
  moreover have "map order_id (orders shop1) = [''20240517120000'']"
    by (simp add: shop1_eq)
  ultimately show ?thesis
    by (simp add: e1 e2 e3 strftime_clock_12_0 strftime_same_second checkout_same_second)
qed

subsection \<open>Who may do what\<close>

text \<open>
  Claim C7. \<open>clear_cart\<close> is the one view of the cart without \<open>@login_required\<close>: for a
  client that is not logged in it runs all the same. With a cart in the session and no
  user who loads, the cart is removed; and with or without a cart the response is the
  redirect to the cart view, not the redirect to the login view that \<open>checkout\<close> gives
  the same client, whose session it leaves as it was.
\<close>

theorem clear_cart_without_login:
  "current_user shop0 stale_session = None
   \<and> session_cart stale_session = Some alice_cart
   \<and> session_cart (session_after (clear_cart shop0 stale_session :: unit result)) = None
   \<and> outcome (clear_cart shop0 stale_session :: unit result) = Returned (Redirect ''cart'')
   \<and> current_user shop0 anonymous_session = None
   \<and> outcome (clear_cart shop0 anonymous_session :: unit result) = Returned (Redirect ''cart'')
   \<and> outcome (checkout dumps_ascii (clock 12 0) (clock 12 0) POST shop0 stale_session
        :: unit result) = Returned (Redirect ''login'')
   \<and> session_after (checkout dumps_ascii (clock 12 0) (clock 12 0) POST shop0 stale_session
        :: unit result) = stale_session"
  by (simp add: current_user_shop0 clear_cart_def views_require_login)
     (simp add: stale_session_def)

text \<open>
  Claim C8, as amended. For an authenticated user who is not an administrator, the
  views \<open>admin_users\<close>, \<open>admin_user_orders\<close>, \<open>admin_orders\<close> and \<open>update_order_status\<close>
  answer with the body of lines 182 to 215 and the status 403, which differs from the
  redirect to the login view that a client who is not logged in gets, and they leave
  the database and the session as they were. \<open>admin_dashboard\<close> answers such a user
  with a redirect to the index view instead, and it too changes nothing.
\<close>

theorem non_admin_is_refused:
  assumes "current_user d s = Some u" and "\<not> is_admin u"
  shows "(admin_users d s :: 'j result) = respond d s [] (Body msg_forbidden 403)
       \<and> (admin_user_orders loads uname d s :: 'j result)
           = respond d s [] (Body msg_forbidden 403)
       \<and> (admin_orders loads now d s :: 'j result) = respond d s [] (Body msg_forbidden 403)
       \<and> (update_order_status now i new_status d s :: 'j result)
           = respond d s [] (Body msg_forbidden 403)
       \<and> (admin_dashboard d s :: 'j result) = respond d s [] (Redirect ''index'')
       \<and> (Body msg_forbidden 403 :: 'j response) \<noteq> Redirect ''login''
       \<and> (Redirect ''index'' :: 'j response) \<noteq> Redirect ''login''"
  using assms
  by (simp add: admin_users_def admin_user_orders_def admin_orders_def update_order_status_def
      admin_dashboard_def login_required_Some)

theorem non_admin_is_refused_witness:
  "current_user shop1 alice_session = Some alice
   \<and> \<not> is_admin alice
   \<and> outcome (admin_orders loads_array (clock 13 0) shop1 alice_session)
       = Returned (Body msg_forbidden 403)
   \<and> db_after (admin_orders loads_array (clock 13 0) shop1 alice_session) = shop1
   \<and> outcome (update_order_status (clock 13 0) 1 status_paid shop1 alice_session :: unit result)
       = Returned (Body msg_forbidden 403)
   \<and> db_after (update_order_status (clock 13 0) 1 status_paid shop1 alice_session :: unit result)
       = shop1
   \<and> outcome (admin_dashboard shop1 alice_session :: unit result) = Returned (Redirect ''index'')"
proof -
  have h1: "current_user shop1 alice_session = Some alice"
    by (rule current_user_shop1)
  have h2: "\<not> is_admin alice"
    by (simp add: alice_def)
  from non_admin_is_refused [where 'j = unit, OF h1 h2, of _ _ "clock 13 0" 1 status_paid]
    non_admin_is_refused [where 'j = string, OF h1 h2, of loads_array _ "clock 13 0"] h1 h2
  show ?thesis by simp
qed

theorem dashboard_redirects_non_admin_counterexample:
  "current_user shop0 alice_session = Some alice
   \<and> \<not> is_admin alice
   \<and> outcome (admin_dashboard shop0 alice_session :: unit result) = Returned (Redirect ''index'')
   \<and> db_after (admin_dashboard shop0 alice_session :: unit result) = shop0"
  by (simp add: current_user_shop0 admin_dashboard_def login_required_Some alice_def)

subsection \<open>Malformed stored carts\<close>

text \<open>
  Claim C9, as amended. No listing view catches what \<open>json.loads\<close> raises. When an
  order that a listing view lists holds a text that \<open>json.loads\<close> rejects, the
  JSONDecodeError leaves the view function: the view builds no response, and the
  database and the session are as they were. This holds for the cart view (the orders
  of the user), for \<open>admin_user_orders\<close> (the orders of the named user) and for
  \<open>admin_orders\<close> (the orders that are not completed, and those completed in the last
  30 days).
\<close>

theorem malformed_blob_raises:
  assumes "current_user d s = Some u" and "r \<in> set (orders d)"
    and "loads (items_json r) = None"
  shows "(order_username r = username u \<longrightarrow>
            (cart loads d s :: 'j result) = raise d s JSONDecodeError)
       \<and> (is_admin u \<and> order_username r = uname \<longrightarrow>
            (admin_user_orders loads uname d s :: 'j result) = raise d s JSONDecodeError)
       \<and> (is_admin u \<and> 30 < toordinal now \<and> (is_pending r \<or> recently_completed now r) \<longrightarrow>
            (admin_orders loads now d s :: 'j result) = raise d s JSONDecodeError)"
proof (intro conjI impI)
  assume "order_username r = username u"
  with assms(2,3)
  have "decode_all loads
          (order_by_desc (\<lambda>r. dt_micro (created_at r))
             (filter (\<lambda>r. order_username r = username u) (orders d))) = Inl JSONDecodeError"
    by (intro decode_all_raises) auto
  with assms(1) show "(cart loads d s :: 'j result) = raise d s JSONDecodeError"
    by (simp add: cart_def login_required_Some Let_def)
next
  assume a: "is_admin u \<and> order_username r = uname"
  with assms(2,3)
  have "decode_all loads
          (order_by_desc (\<lambda>r. dt_micro (created_at r))
             (filter (\<lambda>r. order_username r = uname) (orders d))) = Inl JSONDecodeError"
    by (intro decode_all_raises) auto
  with assms(1) a
  show "(admin_user_orders loads uname d s :: 'j result) = raise d s JSONDecodeError"
    by (simp add: admin_user_orders_def login_required_Some)
next
  assume a: "is_admin u \<and> 30 < toordinal now \<and> (is_pending r \<or> recently_completed now r)"
  with assms(2,3)
  have "decode_all loads
          (order_by_desc (\<lambda>r. dt_micro (created_at r)) (filter is_pending (orders d)) @
           order_by_desc completed_key (filter (recently_completed now) (orders d)))
        = Inl JSONDecodeError"
    by (intro decode_all_raises) auto
  with assms(1) a
  show "(admin_orders loads now d s :: 'j result) = raise d s JSONDecodeError"
    by (simp add: admin_orders_def login_required_Some Let_def)
qed

theorem malformed_blob_raises_witness:
  "current_user shop_broken alice_session = Some alice
   \<and> broken_order \<in> set (orders shop_broken)
   \<and> loads_array (items_json broken_order) = None
   \<and> order_username broken_order = username alice
   \<and> outcome (cart loads_array shop_broken alice_session) = Raised JSONDecodeError
   \<and> current_user shop_broken admin_session = Some admin_account
   \<and> is_admin admin_account \<and> 30 < toordinal (clock 13 0) \<and> is_pending broken_order
   \<and> outcome (admin_orders loads_array (clock 13 0) shop_broken admin_session)
       = Raised JSONDecodeError"
proof -
  have h: "is_admin admin_account" "30 < toordinal (clock 13 0)"
    by (simp_all add: admin_account_def toordinal_clock)
  from malformed_blob_raises [where 'j = string and loads = loads_array and d = shop_broken
        and s = alice_session and u = alice and r = broken_order and now = "clock 13 0",
        OF shop_broken_facts(1,3,4)]
    malformed_blob_raises [where 'j = string and loads = loads_array and d = shop_broken
        and s = admin_session and u = admin_account and r = broken_order
        and now = "clock 13 0", OF shop_broken_facts(2,3,4)]
    shop_broken_facts h
  show ?thesis by simp
qed

theorem malformed_blob_counterexample:
  "items_json broken_order = ''oops''
   \<and> loads_array ''oops'' = None
   \<and> outcome (cart loads_array shop_broken alice_session) = Raised JSONDecodeError
   \<and> outcome (admin_user_orders loads_array ''alice'' shop_broken admin_session)
       = Raised JSONDecodeError"
  by (simp add: cart_def admin_user_orders_def login_required_def current_user_def
      load_user_def shop_broken_def alice_session_def admin_session_def admin_account_def
      alice_def broken_order_def loads_array_def order_by_desc_def Let_def)

end
